theory Spec2Isabelle
  imports Complex_Main "HOL-Library.Sublist" "HOL-Library.Log_Nat"
begin

section \<open>Python strings\<close>

text \<open>
  A Python \<open>str\<close> is modelled as a \<open>string\<close>, each \<open>char\<close> read as a code point
  below 256. The operations below are the ones \<open>chatbot.py\<close> applies to its strings.
\<close>

definition is_space :: "char \<Rightarrow> bool" where
  \<comment> \<open>\<open>str.isspace\<close> on one code point below 256\<close>
  "is_space c = (of_char c \<in> {9, 10, 11, 12, 13, 28, 29, 30, 31, 32, 133, 160 :: nat})"

definition str_strip :: "string \<Rightarrow> string" where
  \<comment> \<open>\<open>s.strip()\<close>\<close>
  "str_strip s = rev (dropWhile is_space (rev (dropWhile is_space s)))"

fun str_contains :: "string \<Rightarrow> string \<Rightarrow> bool" where
  \<comment> \<open>\<open>sub in s\<close>\<close>
  "str_contains sub [] = (sub = [])"
| "str_contains sub (c # cs) = (prefix sub (c # cs) \<or> str_contains sub cs)"

function str_replace :: "string \<Rightarrow> string \<Rightarrow> string \<Rightarrow> string" where
  \<comment> \<open>\<open>s.replace(old, new)\<close>: one scan from the left over non-overlapping occurrences\<close>
  "str_replace old new [] = (if old = [] then new else [])"
| "str_replace old new (c # cs) =
     (if old = [] then new @ c # str_replace old new cs
      else if prefix old (c # cs) then new @ str_replace old new (drop (length old) (c # cs))
      else c # str_replace old new cs)"
  by pat_completeness auto
termination
  by (relation "measure (\<lambda>(old, new, s). length s)") auto

fun str_join :: "string \<Rightarrow> string list \<Rightarrow> string" where
  \<comment> \<open>\<open>sep.join(xs)\<close>\<close>
  "str_join sep [] = []"
| "str_join sep [x] = x"
| "str_join sep (x # y # ys) = x @ sep @ str_join sep (y # ys)"

definition lastn :: "nat \<Rightarrow> 'a list \<Rightarrow> 'a list" where
  \<comment> \<open>the slice \<open>xs[-n:]\<close> for \<open>n > 0\<close>\<close>
  "lastn n xs = drop (length xs - n) xs"

definition truthy_str :: "string option \<Rightarrow> bool" where
  \<comment> \<open>truth value of an optional string: \<open>None\<close> and \<open>""\<close> are false\<close>
  "truthy_str v = (case v of None \<Rightarrow> False | Some s \<Rightarrow> s \<noteq> [])"

definition py_or :: "string option \<Rightarrow> string option \<Rightarrow> string option" where
  \<comment> \<open>\<open>a or b\<close>\<close>
  "py_or a b = (if truthy_str a then a else b)"

section \<open>JSON values\<close>

datatype pyfloat = Finite rat | NegZero | PosInf | NegInf | NaN

datatype json =
    JNull
  | JBool bool
  | JInt int
  | JFloat pyfloat
  | JStr string
  | JList "json list"
  | JDict "(string \<times> json) list"

text \<open>
  What \<open>json.loads\<close> returns and \<open>response.json()\<close> yields; \<open>JNull\<close> is Python's
  \<open>None\<close>. A dict keeps its items in insertion order.
\<close>

fun truthy :: "json \<Rightarrow> bool" where
  "truthy JNull = False"
| "truthy (JBool b) = b"
| "truthy (JInt i) = (i \<noteq> 0)"
| "truthy (JFloat f) = (f \<noteq> Finite 0 \<and> f \<noteq> NegZero)"
| "truthy (JStr s) = (s \<noteq> [])"
| "truthy (JList xs) = (xs \<noteq> [])"
| "truthy (JDict kvs) = (kvs \<noteq> [])"

definition dict_get :: "(string \<times> json) list \<Rightarrow> string \<Rightarrow> json \<Rightarrow> json" where
  \<comment> \<open>\<open>d.get(key, default)\<close>\<close>
  "dict_get d k dflt = (case map_of d k of None \<Rightarrow> dflt | Some v \<Rightarrow> v)"

section \<open>Session state and the outside world\<close>

record entry =
  etype :: string
  message :: string
  timestamp :: "string option"

record chat_message =
  role :: string
  content :: string

record session =
  conversation_history :: "entry list"
  extracted_data :: json
  consultation_active :: bool
  assessment_ready :: bool
  openrouter_api_key :: "string option"
  rapidapi_key :: "string option"

record llm_request =
  llm_authorization :: string
  llm_messages :: "chat_message list"
  llm_max_tokens :: nat

text \<open>
  The outcome of \<open>requests.post\<close> to the completion endpoint as
  \<open>call_openrouter_api\<close> sees it: one of the exceptions it catches, or a response with
  its status code. For a response, \<open>Some c\<close> says that
  \<open>response.json()["choices"][0]["message"]["content"]\<close> is the string \<open>c\<close>, and
  \<open>None\<close> that evaluating this expression (or \<open>.strip()\<close> on it) raises.
\<close>

datatype llm_outcome =
    LlmTimeout
  | LlmRequestException
  | LlmException
  | LlmResponse int "string option"

record diag_request =
  diag_key :: string
  diag_payload :: "(string \<times> json) list"

text \<open>
  The outcome of \<open>requests.post\<close> to the diagnosis endpoint: an exception, or a response
  with its status code and, when the body parses, the value of \<open>response.json()\<close>.
\<close>

datatype diag_outcome =
    DiagException
  | DiagResponse int "json option"

text \<open>
  The world holds what the program reads from outside itself: the secret store, the
  answer of each endpoint to its \<open>n\<close>-th request, and the \<open>n\<close>-th value of
  \<open>datetime.datetime.now().isoformat()\<close>. It records the requests posted so far.
\<close>

record world =
  secrets :: "string \<rightharpoonup> string"
  llm_server :: "nat \<Rightarrow> llm_request \<Rightarrow> llm_outcome"
  llm_posts :: "llm_request list"
  diag_server :: "nat \<Rightarrow> diag_request \<Rightarrow> diag_outcome"
  diag_posts :: "diag_request list"
  clock :: "nat \<Rightarrow> string"
  ticks :: nat

definition now_iso :: "world \<Rightarrow> string \<times> world" where
  "now_iso w = (clock w (ticks w), w\<lparr>ticks := Suc (ticks w)\<rparr>)"

definition init_session_state :: session where
  "init_session_state =
     \<lparr>conversation_history = [], extracted_data = JDict [], consultation_active = False,
      assessment_ready = False, openrouter_api_key = None, rapidapi_key = None\<rparr>"

section \<open>The chatbot\<close>

definition system_prompt :: string where
  \<open>system_prompt = str_join ''\<newline>'' [
    ''You are a professional medical assistant AI helping patients gather their health information for medical assessment. Your role is to:'',
    '''',
    ''1. Conduct a natural, conversational interview to collect essential medical information'',
    ''2. Ask relevant follow-up questions based on user responses'',
    ''3. Show empathy and understanding while maintaining professionalism'',
    ''4. Extract key medical details: age, symptoms, pain levels, duration, medical history, medications, allergies'',
    ''5. Identify emergency situations and recommend immediate medical attention when needed'',
    ''6. Keep responses concise but thorough (2-3 sentences max per response)'',
    ''7. Never provide definitive diagnoses - only gather information for proper medical evaluation'',
    '''',
    ''Essential information to collect:'',
    ''- Basic demographics (age, gender if relevant)'',
    ''- Current symptoms and their severity/duration'',
    ''- Pain levels (1-10 scale)'',
    ''- Medical history and chronic conditions'',
    ''- Current medications and allergies'',
    ''- Recent changes in health'',
    ''- Emergency red flags'',
    '''',
    ''When you have sufficient information, indicate that you'' @ [CHR 0x27] @ ''re ready to provide preliminary assessment by saying "ASSESSMENT_READY" at the end of your response.'',
    '''',
    ''Emergency symptoms requiring immediate attention:'',
    ''- Chest pain, shortness of breath'',
    ''- Severe headache with neck stiffness'',
    ''- Loss of consciousness, confusion'',
    ''- Severe bleeding, trauma'',
    ''- Signs of stroke or heart attack'',
    '''',
    ''Always maintain a caring, professional tone and remind users this is preliminary screening, not medical diagnosis.'']\<close>

definition call_openrouter_api ::
  "world \<Rightarrow> session \<Rightarrow> chat_message list \<Rightarrow> nat \<Rightarrow> string option \<times> world" where
  "call_openrouter_api w s messages max_tokens =
     (let api_key = py_or (secrets w ''OPENROUTER_API_KEY'') (openrouter_api_key s)
      in case api_key of
           None \<Rightarrow> (None, w)
         | Some k \<Rightarrow>
             if k = [] then (None, w)
             else
               let req = \<lparr>llm_authorization = ''Bearer '' @ k, llm_messages = messages,
                          llm_max_tokens = max_tokens\<rparr>;
                   w' = w\<lparr>llm_posts := llm_posts w @ [req]\<rparr>
               in case llm_server w (length (llm_posts w)) req of
                    LlmResponse status body \<Rightarrow>
                      if status = 200
                      then (case body of Some c \<Rightarrow> (Some (str_strip c), w') | None \<Rightarrow> (None, w'))
                      else (None, w')
                  | _ \<Rightarrow> (None, w'))"

definition entry_message :: "entry \<Rightarrow> chat_message" where
  "entry_message e =
     \<lparr>role = (if etype e = ''bot'' then ''assistant'' else ''user''), content = message e\<rparr>"

definition get_llm_response :: "world \<Rightarrow> session \<Rightarrow> string \<Rightarrow> string option \<times> world" where
  "get_llm_response w s user_message =
     (let messages = [\<lparr>role = ''system'', content = system_prompt\<rparr>];
          recent_history = lastn 10 (conversation_history s);
          messages = messages @ map entry_message recent_history;
          messages = messages @ [\<lparr>role = ''user'', content = user_message\<rparr>]
      in call_openrouter_api w s messages 500)"

section \<open>The interview in \<open>main\<close>\<close>

definition initial_message :: string where
  \<open>initial_message = ''Hello! I'' @ [CHR 0x27] @ ''m your AI health assistant. I'' @ [CHR 0x27] @ ''m here to help gather information about your health concerns in a natural, conversational way. What brings you here today? Are you experiencing any symptoms or health issues you'' @ [CHR 0x27] @ ''d like to discuss?''\<close>

definition apology_message :: string where
  \<open>apology_message = ''I apologize, but I'' @ [CHR 0x27] @ ''m having trouble processing your message right now. Could you please try again?''\<close>

definition ready_marker :: string where
  "ready_marker = ''ASSESSMENT_READY''"

definition append_entry :: "session \<Rightarrow> entry \<Rightarrow> session" where
  "append_entry s e = s\<lparr>conversation_history := conversation_history s @ [e]\<rparr>"

definition start_consultation :: "world \<Rightarrow> session \<Rightarrow> world \<times> session" where
  \<comment> \<open>the start button, offered while no consultation is active\<close>
  "start_consultation w s =
     (if consultation_active s then (w, s)
      else if \<not> truthy_str (py_or (secrets w ''OPENROUTER_API_KEY'') (openrouter_api_key s))
      then (w, s)
      else
        let s1 = s\<lparr>consultation_active := True\<rparr>;
            (t, w1) = now_iso w
        in (w1, append_entry s1 \<lparr>etype = ''bot'', message = initial_message, timestamp = Some t\<rparr>))"

definition submit_message :: "world \<Rightarrow> session \<Rightarrow> string \<Rightarrow> world \<times> session" where
  \<comment> \<open>the chat form's send button, offered while the consultation is active and
      the assessment is not ready\<close>
  "submit_message w s user_input =
     (if consultation_active s \<and> \<not> assessment_ready s \<and> str_strip user_input \<noteq> [] then
        let (t1, w1) = now_iso w;
            s1 = append_entry s \<lparr>etype = ''user'', message = user_input, timestamp = Some t1\<rparr>;
            (bot_response, w2) = get_llm_response w1 s1 user_input
        in if truthy_str bot_response then
             let r = (case bot_response of Some x \<Rightarrow> x | None \<Rightarrow> []);
                 (r', s2) =
                   (if str_contains ready_marker r
                    then (str_strip (str_replace ready_marker [] r), s1\<lparr>assessment_ready := True\<rparr>)
                    else (r, s1));
                 (t2, w3) = now_iso w2
             in (w3, append_entry s2 \<lparr>etype = ''bot'', message = r', timestamp = Some t2\<rparr>)
           else
             let (t2, w3) = now_iso w2
             in (w3, append_entry s1 \<lparr>etype = ''bot'', message = apology_message, timestamp = Some t2\<rparr>)
      else (w, s))"

fun run_messages :: "world \<Rightarrow> session \<Rightarrow> string list \<Rightarrow> world \<times> session" where
  \<comment> \<open>one rerun of the script per submitted message\<close>
  "run_messages w s [] = (w, s)"
| "run_messages w s (m # ms) = (case submit_message w s m of (w', s') \<Rightarrow> run_messages w' s' ms)"

definition user_entry :: "world \<Rightarrow> string \<Rightarrow> entry" where
  \<comment> \<open>the entry \<open>main\<close> appends for a submitted message\<close>
  "user_entry w user_input =
     \<lparr>etype = ''user'', message = user_input, timestamp = Some (clock w (ticks w))\<rparr>"

definition step_reply :: "world \<Rightarrow> session \<Rightarrow> string \<Rightarrow> string option" where
  \<comment> \<open>what \<open>get_llm_response\<close> returns inside the step that handles \<open>user_input\<close>\<close>
  "step_reply w s user_input =
     fst (get_llm_response (snd (now_iso w)) (append_entry s (user_entry w user_input)) user_input)"

definition form_accepts :: "session \<Rightarrow> string \<Rightarrow> bool" where
  \<comment> \<open>the chat form is shown and the message passes \<open>user_input.strip()\<close>\<close>
  "form_accepts s user_input =
     (consultation_active s \<and> \<not> assessment_ready s \<and> str_strip user_input \<noteq> [])"

fun submissions_accepted :: "world \<Rightarrow> session \<Rightarrow> string list \<Rightarrow> bool" where
  \<comment> \<open>every message of the list is submitted through the form when its turn comes\<close>
  "submissions_accepted w s [] = True"
| "submissions_accepted w s (m # ms) =
     (form_accepts s m \<and>
      (case submit_message w s m of (w', s') \<Rightarrow> submissions_accepted w' s' ms))"

definition example_world :: "(nat \<Rightarrow> llm_outcome) \<Rightarrow> world" where
  \<comment> \<open>a world with a configured LLM credential whose endpoint gives the \<open>n\<close>-th request
      the outcome \<open>answers n\<close>; no diagnosis credential\<close>
  "example_world answers =
     \<lparr>secrets = [''OPENROUTER_API_KEY'' \<mapsto> ''sk-test''],
      llm_server = (\<lambda>n req. answers n), llm_posts = [],
      diag_server = (\<lambda>n req. DiagResponse 401 None), diag_posts = [],
      clock = (\<lambda>n. ''2024-01-01T10:00:00''), ticks = 0\<rparr>"

definition step_request :: "world \<Rightarrow> session \<Rightarrow> string \<Rightarrow> string \<Rightarrow> llm_request" where
  \<comment> \<open>the request the step for \<open>user_input\<close> posts when the credential is \<open>k\<close>\<close>
  "step_request w s user_input k =
     \<lparr>llm_authorization = ''Bearer '' @ k,
      llm_messages =
        \<lparr>role = ''system'', content = system_prompt\<rparr> #
        map entry_message (lastn 10 (conversation_history s @ [user_entry w user_input])) @
        [\<lparr>role = ''user'', content = user_input\<rparr>],
      llm_max_tokens = 500\<rparr>"

definition started_example :: session where
  \<comment> \<open>the session right after the start button, in \<open>example_world\<close>\<close>
  "started_example = init_session_state
     \<lparr>conversation_history :=
        [\<lparr>etype = ''bot'', message = initial_message, timestamp = Some ''2024-01-01T10:00:00''\<rparr>],
      consultation_active := True\<rparr>"

definition two_answers :: "nat \<Rightarrow> llm_outcome" where
  \<comment> \<open>an endpoint that answers the first request and times out afterwards\<close>
  "two_answers n = (if n = 0 then LlmResponse 200 (Some ''ok?'') else LlmTimeout)"

definition nested_marker_reply :: "nat \<Rightarrow> llm_outcome" where
  \<comment> \<open>an endpoint whose reply spells the marker around a second copy of it\<close>
  "nested_marker_reply n = LlmResponse 200 (Some ''ASSESSMENT_ASSESSMENT_READYREADY'')"

section \<open>Extraction, diagnosis lookup and assessment\<close>

text \<open>
  The functions of Python's \<open>json\<close> module that the chatbot calls are parameters of the
  model: \<open>json_loads t\<close> is the value of \<open>json.loads(t)\<close>, or \<open>None\<close> when the call
  raises (\<open>JSONDecodeError\<close> or any other exception), and \<open>json_dumps v\<close> is
  the value of \<open>json.dumps(v, indent=2)\<close>, or the exception it raises: the encoder
  recurses on the nesting of \<open>v\<close> and gives up at the recursion limit.
\<close>

datatype py_error = AttributeError | RecursionError

record pylib =
  json_loads :: "string \<Rightarrow> json option"
  json_dumps :: "json \<Rightarrow> py_error + string"

definition py_get :: "json \<Rightarrow> string \<Rightarrow> json \<Rightarrow> py_error + json" where
  \<comment> \<open>\<open>v.get(key, default)\<close>: only a dict has the method\<close>
  "py_get v k dflt = (case v of JDict d \<Rightarrow> Inr (dict_get d k dflt) | _ \<Rightarrow> Inl AttributeError)"

definition re_search_object :: "string \<Rightarrow> string option" where
  \<comment> \<open>\<open>re.search(r'\{.*\}', response, re.DOTALL)\<close> and \<open>.group()\<close> of the match\<close>
  "re_search_object response =
     (let from_brace = dropWhile (\<lambda>c. c \<noteq> CHR ''{'') response;
          matched = rev (dropWhile (\<lambda>c. c \<noteq> CHR ''}'') (rev from_brace))
      in if matched = [] then None else Some matched)"

definition extraction_prompt :: "string \<Rightarrow> string" where
  \<open>extraction_prompt conversation_text = str_join ''\<newline>'' [
    '''',
    ''        Based on the following medical conversation, extract and structure the key medical information in JSON format.'',
    ''        Extract only information that was explicitly mentioned by the user.'',
    '''',
    ''        Conversation:'',
    ''        '' @ conversation_text,
    '''',
    ''        Please extract the following information in this JSON format:'',
    ''        {'',
    ''            "age": null,'',
    ''            "gender": null,'',
    ''            "symptoms": [],'',
    ''            "symptom_duration": null,'',
    ''            "pain_level": null,'',
    ''            "chronic_conditions": [],'',
    ''            "medications": [],'',
    ''            "allergies": [],'',
    ''            "has_fever": null,'',
    ''            "emergency_symptoms": false,'',
    ''            "additional_concerns": []'',
    ''        }'',
    '''',
    ''        Rules:'',
    ''        - Only include information explicitly stated by the user'',
    ''        - Use null for missing information'',
    ''        - symptoms should be an array of strings'',
    ''        - pain_level should be a number 1-10 or null'',
    ''        - Set emergency_symptoms to true if any critical symptoms are mentioned'',
    ''        - Return only valid JSON'',
    ''        '']\<close>

definition extraction_messages :: "string \<Rightarrow> chat_message list" where
  "extraction_messages conversation_text =
     [\<lparr>role = ''system'',
       content = ''You are a medical data extraction assistant. Extract information accurately and return only valid JSON.''\<rparr>,
      \<lparr>role = ''user'', content = extraction_prompt conversation_text\<rparr>]"

definition extract_medical_data :: "pylib \<Rightarrow> world \<Rightarrow> session \<Rightarrow> string \<Rightarrow> json \<times> world" where
  \<comment> \<open>the \<open>except\<close> clause catches what \<open>json.loads\<close> raises and returns \<open>{}\<close>\<close>
  "extract_medical_data L w s conversation_text =
     (let (response, w') = call_openrouter_api w s (extraction_messages conversation_text) 800
      in if truthy_str response then
           (case re_search_object (case response of Some r \<Rightarrow> r | None \<Rightarrow> []) of
              Some json_match \<Rightarrow>
                (case json_loads L json_match of
                   Some v \<Rightarrow> (v, w')
                 | None \<Rightarrow> (JDict [], w'))
            | None \<Rightarrow> (JDict [], w'))
         else (JDict [], w'))"

definition rapidapi_header :: "world \<Rightarrow> session \<Rightarrow> string" where
  \<comment> \<open>\<open>st.secrets.get("RAPIDAPI_KEY") or st.session_state.get("rapidapi_key", "")\<close>\<close>
  "rapidapi_header w s =
     (let fallback = (case rapidapi_key s of Some k \<Rightarrow> k | None \<Rightarrow> [])
      in case secrets w ''RAPIDAPI_KEY'' of
           Some k \<Rightarrow> if k \<noteq> [] then k else fallback
         | None \<Rightarrow> fallback)"

definition diagnosis_payload :: "(string \<times> json) list \<Rightarrow> json \<Rightarrow> (string \<times> json) list" where
  "diagnosis_payload d symptoms =
     [(''symptoms'', symptoms),
      (''age'', dict_get d ''age'' (JInt 25)),
      (''gender'', dict_get d ''gender'' (JStr ''unknown'')),
      (''medical_history'', dict_get d ''chronic_conditions'' (JList []))]"

definition get_ai_diagnosis :: "world \<Rightarrow> session \<Rightarrow> json \<Rightarrow> json \<times> world" where
  \<comment> \<open>every exception inside is caught and gives \<open>None\<close>\<close>
  "get_ai_diagnosis w s data =
     (case data of
        JDict d \<Rightarrow>
          (let symptoms = dict_get d ''symptoms'' (JList [])
           in if \<not> truthy symptoms then (JNull, w)
              else
                let req = \<lparr>diag_key = rapidapi_header w s,
                           diag_payload = diagnosis_payload d symptoms\<rparr>;
                    w' = w\<lparr>diag_posts := diag_posts w @ [req]\<rparr>
                in case diag_server w (length (diag_posts w)) req of
                     DiagResponse status body \<Rightarrow>
                       if status = 200
                       then (case body of Some v \<Rightarrow> (v, w') | None \<Rightarrow> (JNull, w'))
                       else (JNull, w')
                   | DiagException \<Rightarrow> (JNull, w'))
      | _ \<Rightarrow> (JNull, w))"

definition assessment_prompt_text :: "string \<Rightarrow> string \<Rightarrow> string" where
  \<comment> \<open>the text of the f-string, its two fields filled in\<close>
  \<open>assessment_prompt_text patient_data diagnosis_results = str_join ''\<newline>'' [
    '''',
    ''        Based on the following patient information, provide a comprehensive medical assessment and recommendations.'',
    ''        '',
    ''        Patient Data: '' @ patient_data,
    ''        '',
    ''        AI Diagnosis Results: '' @ diagnosis_results,
    ''        '',
    ''        Please provide:'',
    ''        1. Summary of presented symptoms and concerns'',
    ''        2. Possible conditions or differential diagnoses (if AI diagnosis available, incorporate those findings)'',
    ''        3. Urgency level (Low/Moderate/High/Emergency)'',
    ''        4. Specific recommendations for next steps'',
    ''        5. General health advice'',
    ''        6. When to seek immediate medical attention'',
    ''        '',
    ''        Format your response with clear sections using markdown headers.'',
    ''        Be thorough but concise, and always emphasize that this is preliminary assessment requiring professional medical evaluation.'',
    ''        '']\<close>

definition assessment_prompt :: "pylib \<Rightarrow> json \<Rightarrow> json \<Rightarrow> py_error + string" where
  \<comment> \<open>the f-string is evaluated before the \<open>try\<close>, its fields from left to right: what
      \<open>json.dumps\<close> raises there leaves the function\<close>
  "assessment_prompt L data ai_diagnosis =
     (case json_dumps L data of
        Inl e \<Rightarrow> Inl e
      | Inr patient_data \<Rightarrow>
          if truthy ai_diagnosis then
            (case json_dumps L ai_diagnosis of
               Inl e \<Rightarrow> Inl e
             | Inr diagnosis_results \<Rightarrow>
                 Inr (assessment_prompt_text patient_data diagnosis_results))
          else Inr (assessment_prompt_text patient_data ''Not available''))"

definition assessment_messages :: "string \<Rightarrow> chat_message list" where
  "assessment_messages prompt =
     [\<lparr>role = ''system'',
       content = ''You are a medical assessment AI providing preliminary health evaluations. Always emphasize the need for professional medical consultation.''\<rparr>,
      \<lparr>role = ''user'', content = prompt\<rparr>]"

definition unable_message :: string where
  "unable_message = ''Unable to generate assessment. Please consult a healthcare provider.''"

definition generate_comprehensive_assessment ::
  "pylib \<Rightarrow> world \<Rightarrow> session \<Rightarrow> json \<Rightarrow> (py_error + string) \<times> world" where
  \<comment> \<open>\<open>Inl\<close> is an exception that leaves the function. The \<open>try\<close> holds the call of
      \<open>call_openrouter_api\<close> only, which catches every exception itself, so the
      \<open>except\<close> clause is never entered\<close>
  "generate_comprehensive_assessment L w s data =
     (let (ai_diagnosis, w1) = get_ai_diagnosis w s data
      in case assessment_prompt L data ai_diagnosis of
           Inl e \<Rightarrow> (Inl e, w1)
         | Inr prompt \<Rightarrow>
             let (assessment, w2) = call_openrouter_api w1 s (assessment_messages prompt) 1200
             in (Inr (if truthy_str assessment
                      then (case assessment of Some a \<Rightarrow> a | None \<Rightarrow> [])
                      else unable_message), w2))"


definition extraction_reply :: "world \<Rightarrow> session \<Rightarrow> string \<Rightarrow> string option" where
  \<comment> \<open>what the Gateway returns to \<open>extract_medical_data\<close>\<close>
  "extraction_reply w s conversation_text =
     fst (call_openrouter_api w s (extraction_messages conversation_text) 800)"

definition transcript_text :: "entry list \<Rightarrow> string" where
  "transcript_text history =
     str_join ''\<newline>''
       (map (\<lambda>e. (if etype e = ''bot'' then ''Assistant'' else ''User'') @ '': '' @ message e)
          history)"

definition generate_assessment ::
  "pylib \<Rightarrow> world \<Rightarrow> session \<Rightarrow> (world \<times> session) \<times> (py_error + string) option" where
  \<comment> \<open>the button offered once \<open>assessment_ready\<close> is set; the report is displayed, and
      an exception of the composer ends the run with the record already stored\<close>
  "generate_assessment L w s =
     (if consultation_active s \<and> assessment_ready s then
        let (extracted, w1) = extract_medical_data L w s (transcript_text (conversation_history s));
            s1 = s\<lparr>extracted_data := extracted\<rparr>;
            (assessment, w2) = generate_comprehensive_assessment L w1 s1 extracted
        in ((w2, s1), Some assessment)
      else ((w, s), None))"

definition start_new_consultation :: "session \<Rightarrow> session" where
  \<comment> \<open>the four keys are deleted and \<open>init_session_state\<close> sets them again on the rerun\<close>
  "start_new_consultation s =
     s\<lparr>conversation_history := [], extracted_data := JDict [], consultation_active := False,
       assessment_ready := False\<rparr>"

definition objects_only :: "pylib \<Rightarrow> bool" where
  \<comment> \<open>a JSON document that starts with an opening brace is an object: on such a text
      \<open>json.loads\<close> returns a dict when it returns\<close>
  "objects_only L =
     (\<forall>t v. json_loads L t = Some v \<and> t \<noteq> [] \<and> hd t = CHR ''{'' \<longrightarrow> (\<exists>d. v = JDict d))"

primrec json_depth :: "json \<Rightarrow> nat" where
  \<comment> \<open>how deep the lists and dicts of a value are nested\<close>
  "json_depth JNull = 0"
| "json_depth (JBool b) = 0"
| "json_depth (JInt i) = 0"
| "json_depth (JFloat f) = 0"
| "json_depth (JStr t) = 0"
| "json_depth (JList xs) = Suc (fold max (map json_depth xs) 0)"
| "json_depth (JDict kvs) = Suc (fold max (map snd (map (map_prod id json_depth) kvs)) 0)"

definition example_lib :: pylib where
  \<comment> \<open>\<open>json.loads\<close> and \<open>json.dumps\<close> on the one document the examples use; the encoder
      gives up on a value nested a thousand deep, the recursion limit of CPython\<close>
  \<open>example_lib =
     \<lparr>json_loads = (\<lambda>t. if t = ''{"age": null}'' then Some (JDict [(''age'', JNull)]) else None),
      json_dumps = (\<lambda>v. if 1000 \<le> json_depth v then Inl RecursionError
                         else Inr (if v = JDict [] then ''{}'' else ''{\<newline>  "age": null\<newline>}''))\<rparr>\<close>




definition long_example :: session where
  \<comment> \<open>an interview with eleven entries so far\<close>
  "long_example = init_session_state
     \<lparr>conversation_history :=
        map (\<lambda>(t, m). \<lparr>etype = t, message = m, timestamp = Some ''2024-01-01T10:00:00''\<rparr>)
          [(''bot'', ''a''), (''user'', ''b''), (''bot'', ''c''), (''user'', ''d''),
           (''bot'', ''e''), (''user'', ''f''), (''bot'', ''g''), (''user'', ''h''),
           (''bot'', ''i''), (''user'', ''j''), (''bot'', ''k'')],
      consultation_active := True\<rparr>"

definition object_reply :: "nat \<Rightarrow> llm_outcome" where
  \<comment> \<open>an endpoint that answers every request with a JSON object\<close>
  \<open>object_reply n = LlmResponse 200 (Some ''{"age": null}'')\<close>

definition lenient_world :: world where
  \<comment> \<open>no credential at all, and a diagnosis endpoint that answers 200 all the same\<close>
  "lenient_world =
     \<lparr>secrets = Map.empty,
      llm_server = (\<lambda>n req. LlmTimeout), llm_posts = [],
      diag_server = (\<lambda>n req. DiagResponse 200 (Some (JDict [(''diagnosis'', JStr ''flu'')]))),
      diag_posts = [],
      clock = (\<lambda>n. ''2024-01-01T10:00:00''), ticks = 0\<rparr>"

definition prose_reply :: "nat \<Rightarrow> llm_outcome" where
  \<comment> \<open>an endpoint that answers in prose, without any brace\<close>
  "prose_reply n = LlmResponse 200 (Some ''no data'')"

definition broken_reply :: "nat \<Rightarrow> llm_outcome" where
  \<comment> \<open>an endpoint whose answer has braces around something that is not JSON\<close>
  "broken_reply n = LlmResponse 200 (Some ''{oops}'')"

definition fenced_reply :: "nat \<Rightarrow> llm_outcome" where
  \<comment> \<open>an endpoint that wraps a JSON object in prose\<close>
  \<open>fenced_reply n = LlmResponse 200 (Some ''Here: {"age": 40} ok'')\<close>

definition fenced_lib :: pylib where
  \<comment> \<open>\<open>json.loads\<close> on the object of \<open>fenced_reply\<close>\<close>
  \<open>fenced_lib =
     \<lparr>json_loads = (\<lambda>t. if t = ''{"age": 40}'' then Some (JDict [(''age'', JInt 40)]) else None),
      json_dumps = json_dumps example_lib\<rparr>\<close>

section \<open>Export\<close>




























definition pow2 :: "int \<Rightarrow> rat" where
  "pow2 e = (if 0 \<le> e then 2 ^ nat e else 1 / 2 ^ nat (- e))"

definition binade :: "rat \<Rightarrow> int" where
  \<comment> \<open>the exponent \<open>e\<close> with \<open>2 ^ e \<le> |x| < 2 ^ (e + 1)\<close>, for \<open>x \<noteq> 0\<close>\<close>
  "binade x =
     (let (p, q) = quotient_of \<bar>x\<bar>; e0 = bitlen p - bitlen q
      in if pow2 e0 \<le> \<bar>x\<bar> then e0 else e0 - 1)"







section \<open>Properties of the interview\<close>

lemma call_api_ticks:
  "ticks (snd (call_openrouter_api w s ms n)) = ticks w \<and>
   clock (snd (call_openrouter_api w s ms n)) = clock w"
  by (simp add: call_openrouter_api_def Let_def split: option.splits llm_outcome.splits)

lemma get_llm_ticks:
  "ticks (snd (get_llm_response w s m)) = ticks w \<and>
   clock (snd (get_llm_response w s m)) = clock w"
  by (simp add: get_llm_response_def call_api_ticks)

lemma call_api_ok:
  assumes "py_or (secrets w ''OPENROUTER_API_KEY'') (openrouter_api_key s) = Some k" "k \<noteq> []"
  shows "call_openrouter_api w s ms n =
     (let req = \<lparr>llm_authorization = ''Bearer '' @ k, llm_messages = ms, llm_max_tokens = n\<rparr>
      in ((case llm_server w (length (llm_posts w)) req of
            LlmResponse status (Some c) \<Rightarrow> if status = 200 then Some (str_strip c) else None
          | _ \<Rightarrow> None),
          w\<lparr>llm_posts := llm_posts w @ [req]\<rparr>))"
  using assms
  by (simp add: call_openrouter_api_def Let_def split: llm_outcome.splits option.splits)

lemma step_key:
  assumes "py_or (secrets w ''OPENROUTER_API_KEY'') (openrouter_api_key s) = Some k"
  shows "py_or (secrets (snd (now_iso w)) ''OPENROUTER_API_KEY'')
           (openrouter_api_key (append_entry s (user_entry w u))) = Some k"
  using assms by (simp add: now_iso_def append_entry_def)

lemma step_reply_server:
  assumes "py_or (secrets w ''OPENROUTER_API_KEY'') (openrouter_api_key s) = Some k" and "k \<noteq> []"
  shows "step_reply w s u =
     (case llm_server w (length (llm_posts w)) (step_request w s u k) of
        LlmResponse status (Some c) \<Rightarrow> if status = 200 then Some (str_strip c) else None
      | _ \<Rightarrow> None)"
  unfolding step_reply_def get_llm_response_def Let_def step_request_def
  by (simp add: call_api_ok[OF step_key[OF assms(1)] assms(2)] Let_def)
    (simp add: now_iso_def append_entry_def)

lemma step_posts:
  assumes "py_or (secrets w ''OPENROUTER_API_KEY'') (openrouter_api_key s) = Some k" and "k \<noteq> []"
  shows "snd (get_llm_response (snd (now_iso w)) (append_entry s (user_entry w u)) u) =
      w\<lparr>llm_posts := llm_posts w @ [step_request w s u k], ticks := Suc (ticks w)\<rparr>"
  unfolding get_llm_response_def Let_def step_request_def
  by (simp add: call_api_ok[OF step_key[OF assms(1)] assms(2)] Let_def)
    (simp add: now_iso_def append_entry_def)

lemma submit_posts:
  assumes "form_accepts s u"
  shows "llm_posts (fst (submit_message w s u)) =
      llm_posts (snd (get_llm_response (snd (now_iso w)) (append_entry s (user_entry w u)) u))"
  using assms
  by (simp add: submit_message_def form_accepts_def Let_def split_beta now_iso_def user_entry_def)

lemma submit_world:
  assumes "form_accepts s u"
    and "py_or (secrets w ''OPENROUTER_API_KEY'') (openrouter_api_key s) = Some k" and "k \<noteq> []"
  shows "fst (submit_message w s u) =
           w\<lparr>llm_posts := llm_posts w @ [step_request w s u k], ticks := Suc (Suc (ticks w))\<rparr>"
  using assms(1) step_posts[OF assms(2,3), of u]
  by (simp add: submit_message_def form_accepts_def Let_def split_beta now_iso_def user_entry_def)

lemma submit_fail:
  assumes "form_accepts s u" and "\<not> truthy_str (step_reply w s u)"
  shows "snd (submit_message w s u) =
     s\<lparr>conversation_history := conversation_history s @
         [user_entry w u,
          \<lparr>etype = ''bot'', message = apology_message,
           timestamp = Some (clock w (Suc (ticks w)))\<rparr>]\<rparr>"
  using assms get_llm_ticks[of "snd (now_iso w)" "append_entry s (user_entry w u)" u]
  by (simp add: submit_message_def form_accepts_def step_reply_def now_iso_def user_entry_def
      append_entry_def split_beta Let_def)

lemma submit_reply:
  assumes "form_accepts s u" and "step_reply w s u = Some r" and "r \<noteq> []"
  shows "snd (submit_message w s u) =
     (if str_contains ready_marker r
      then s\<lparr>conversation_history := conversation_history s @
              [user_entry w u,
               \<lparr>etype = ''bot'', message = str_strip (str_replace ready_marker [] r),
                timestamp = Some (clock w (Suc (ticks w)))\<rparr>],
             assessment_ready := True\<rparr>
      else s\<lparr>conversation_history := conversation_history s @
              [user_entry w u,
               \<lparr>etype = ''bot'', message = r, timestamp = Some (clock w (Suc (ticks w)))\<rparr>]\<rparr>)"
  using assms get_llm_ticks[of "snd (now_iso w)" "append_entry s (user_entry w u)" u]
  by (simp add: submit_message_def form_accepts_def step_reply_def now_iso_def user_entry_def
      append_entry_def split_beta Let_def truthy_str_def)

lemma submit_history:
  assumes "form_accepts s u"
  shows "\<exists>b. etype b = ''bot'' \<and>
     conversation_history (snd (submit_message w s u)) =
       conversation_history s @ [user_entry w u, b] \<and>
     consultation_active (snd (submit_message w s u))"
  using assms
  by (auto simp add: submit_message_def form_accepts_def now_iso_def user_entry_def
      append_entry_def split_beta Let_def)

lemma run_history:
  "submissions_accepted w s ms \<Longrightarrow>
     length (conversation_history (snd (run_messages w s ms))) =
       length (conversation_history s) + 2 * length ms \<and>
     map etype (conversation_history (snd (run_messages w s ms))) =
       map etype (conversation_history s) @ concat (map (\<lambda>m. [''user'', ''bot'']) ms) \<and>
     map message (filter (\<lambda>e. etype e = ''user'') (conversation_history (snd (run_messages w s ms)))) =
       map message (filter (\<lambda>e. etype e = ''user'') (conversation_history s)) @ ms \<and>
     prefix (conversation_history s) (conversation_history (snd (run_messages w s ms)))"
proof (induction ms arbitrary: w s)
  case Nil
  then show ?case by simp
next
  case (Cons m ms)
  obtain w' s' where step: "submit_message w s m = (w', s')"
    by (cases "submit_message w s m")
  from Cons.prems have acc: "form_accepts s m" and rest: "submissions_accepted w' s' ms"
    by (simp_all add: step)
  from submit_history[OF acc, of w] step obtain b where
    b: "etype b = ''bot''" and
    h: "conversation_history s' = conversation_history s @ [user_entry w m, b]"
    by auto
  note ih = Cons.IH[OF rest]
  show ?case using ih b h
    by (auto simp add: step user_entry_def prefix_def)
qed

lemma start_history:
  assumes "conversation_history s0 = []" "\<not> consultation_active s0" "\<not> assessment_ready s0"
    and "truthy_str (py_or (secrets w ''OPENROUTER_API_KEY'') (openrouter_api_key s0))"
  shows "conversation_history (snd (start_consultation w s0)) =
           [\<lparr>etype = ''bot'', message = initial_message, timestamp = Some (clock w (ticks w))\<rparr>]
         \<and> consultation_active (snd (start_consultation w s0))
         \<and> \<not> assessment_ready (snd (start_consultation w s0))"
  using assms by (simp add: start_consultation_def now_iso_def append_entry_def)

lemma example_key:
  "py_or (secrets (example_world f\<lparr>ticks := n\<rparr>) ''OPENROUTER_API_KEY'') (openrouter_api_key s) =
     Some ''sk-test''"
  "py_or (secrets (example_world f) ''OPENROUTER_API_KEY'') (openrouter_api_key s) = Some ''sk-test''"
  by (simp_all add: example_world_def py_or_def truthy_str_def)

lemma example_reply:
  "step_reply (example_world f\<lparr>ticks := n\<rparr>) s u =
     (case f 0 of LlmResponse status (Some c) \<Rightarrow> if status = 200 then Some (str_strip c) else None
      | _ \<Rightarrow> None)"
  "step_reply (example_world f) s u =
     (case f 0 of LlmResponse status (Some c) \<Rightarrow> if status = 200 then Some (str_strip c) else None
      | _ \<Rightarrow> None)"
  by (simp_all add: step_reply_server[OF example_key(1)] step_reply_server[OF example_key(2)])
    (simp_all add: example_world_def)

lemma strip_examples:
  "str_strip ''hi'' = ''hi''" "str_strip ''yes'' = ''yes''" "str_strip ''ok?'' = ''ok?''"
  by (simp_all add: str_strip_def is_space_def)

lemma accepts_hi: "form_accepts started_example ''hi''"
  by (simp add: form_accepts_def started_example_def init_session_state_def strip_examples)

text \<open>
  Claim C3. When a message is submitted through the chat form of an active interview and
  the Gateway gives no usable reply (\<open>get_llm_response\<close> returns \<open>None\<close>, or an empty
  string), the step appends the user's entry and then the fixed apology as a bot entry,
  changes nothing else, and leaves the session interviewing: \<open>consultation_active\<close> is
  still true and \<open>assessment_ready\<close> still false. The step is a total function of the
  world and the session: every exception of the call is caught in \<open>call_openrouter_api\<close>.
\<close>

theorem gateway_failure_absorbed:
  assumes "form_accepts s user_input" and "\<not> truthy_str (step_reply w s user_input)"
  shows "snd (submit_message w s user_input) =
     s\<lparr>conversation_history := conversation_history s @
         [\<lparr>etype = ''user'', message = user_input, timestamp = Some (clock w (ticks w))\<rparr>,
          \<lparr>etype = ''bot'', message = apology_message,
           timestamp = Some (clock w (Suc (ticks w)))\<rparr>]\<rparr>
     \<and> consultation_active (snd (submit_message w s user_input))
     \<and> \<not> assessment_ready (snd (submit_message w s user_input))"
  using assms submit_fail[OF assms] by (simp add: user_entry_def form_accepts_def)

theorem gateway_failure_absorbed_witness:
  "form_accepts started_example ''hi'' \<and>
   \<not> truthy_str (step_reply (example_world (\<lambda>n. LlmTimeout)) started_example ''hi'') \<and>
   conversation_history
     (snd (submit_message (example_world (\<lambda>n. LlmTimeout)) started_example ''hi'')) =
     [\<lparr>etype = ''bot'', message = initial_message, timestamp = Some ''2024-01-01T10:00:00''\<rparr>,
      \<lparr>etype = ''user'', message = ''hi'', timestamp = Some ''2024-01-01T10:00:00''\<rparr>,
      \<lparr>etype = ''bot'', message = apology_message, timestamp = Some ''2024-01-01T10:00:00''\<rparr>] \<and>
   consultation_active
     (snd (submit_message (example_world (\<lambda>n. LlmTimeout)) started_example ''hi'')) \<and>
   \<not> assessment_ready
     (snd (submit_message (example_world (\<lambda>n. LlmTimeout)) started_example ''hi''))"
proof -
  have b: "\<not> truthy_str (step_reply (example_world (\<lambda>n. LlmTimeout)) started_example ''hi'')"
    by (simp add: example_reply truthy_str_def)
  from gateway_failure_absorbed[OF accepts_hi b] accepts_hi b show ?thesis
    by (simp add: example_world_def started_example_def init_session_state_def)
qed

text \<open>
  Claim C9. In the step for a submitted message, with a credential configured, exactly one
  request is posted to the completion endpoint, and its message sequence is the system
  prompt, then the most recent ten entries of the history taken after the user's entry
  has been appended (all of them when there are ten or fewer: the entries before the
  last ten are dropped, and the user's entry is the last of the window), then the user's
  message once more.
\<close>

theorem gateway_messages_of_step:
  assumes "form_accepts s user_input"
    and "py_or (secrets w ''OPENROUTER_API_KEY'') (openrouter_api_key s) = Some k" and "k \<noteq> []"
  shows "\<exists>window.
     llm_posts (fst (submit_message w s user_input)) = llm_posts w @
       [\<lparr>llm_authorization = ''Bearer '' @ k,
         llm_messages =
           \<lparr>role = ''system'', content = system_prompt\<rparr> #
           map entry_message window @
           [\<lparr>role = ''user'', content = user_input\<rparr>],
         llm_max_tokens = 500\<rparr>] \<and>
     window =
       drop (length (conversation_history s) + 1 - 10)
         (conversation_history s @
            [\<lparr>etype = ''user'', message = user_input, timestamp = Some (clock w (ticks w))\<rparr>]) \<and>
     length window = min 10 (length (conversation_history s) + 1) \<and>
     last window =
       \<lparr>etype = ''user'', message = user_input, timestamp = Some (clock w (ticks w))\<rparr>"
  using submit_world[OF assms] by (simp add: step_request_def user_entry_def lastn_def)

theorem gateway_messages_of_step_witness:
  "form_accepts started_example ''hi'' \<and>
   py_or (secrets (example_world (\<lambda>n. LlmTimeout)) ''OPENROUTER_API_KEY'')
     (openrouter_api_key started_example) = Some ''sk-test'' \<and> ''sk-test'' \<noteq> [] \<and>
   llm_posts (fst (submit_message (example_world (\<lambda>n. LlmTimeout)) started_example ''hi'')) =
     [\<lparr>llm_authorization = ''Bearer sk-test'',
       llm_messages =
         [\<lparr>role = ''system'', content = system_prompt\<rparr>,
          \<lparr>role = ''assistant'', content = initial_message\<rparr>,
          \<lparr>role = ''user'', content = ''hi''\<rparr>,
          \<lparr>role = ''user'', content = ''hi''\<rparr>],
       llm_max_tokens = 500\<rparr>] \<and>
   form_accepts long_example ''hi'' \<and>
   py_or (secrets (example_world (\<lambda>n. LlmTimeout)) ''OPENROUTER_API_KEY'')
     (openrouter_api_key long_example) = Some ''sk-test'' \<and>
   length (conversation_history long_example) = 11 \<and>
   llm_posts (fst (submit_message (example_world (\<lambda>n. LlmTimeout)) long_example ''hi'')) =
     [\<lparr>llm_authorization = ''Bearer sk-test'',
       llm_messages =
         [\<lparr>role = ''system'', content = system_prompt\<rparr>,
          \<lparr>role = ''assistant'', content = ''c''\<rparr>,
          \<lparr>role = ''user'', content = ''d''\<rparr>,
          \<lparr>role = ''assistant'', content = ''e''\<rparr>,
          \<lparr>role = ''user'', content = ''f''\<rparr>,
          \<lparr>role = ''assistant'', content = ''g''\<rparr>,
          \<lparr>role = ''user'', content = ''h''\<rparr>,
          \<lparr>role = ''assistant'', content = ''i''\<rparr>,
          \<lparr>role = ''user'', content = ''j''\<rparr>,
          \<lparr>role = ''assistant'', content = ''k''\<rparr>,
          \<lparr>role = ''user'', content = ''hi''\<rparr>,
          \<lparr>role = ''user'', content = ''hi''\<rparr>],
       llm_max_tokens = 500\<rparr>]"
proof -
  have k: "''sk-test'' \<noteq> []" by simp
  have a: "form_accepts long_example ''hi''"
    by (simp add: form_accepts_def long_example_def init_session_state_def strip_examples)
  have l: "length (conversation_history long_example) = 11"
    by (simp add: long_example_def)
  from gateway_messages_of_step[OF accepts_hi example_key(2) k, of "\<lambda>n. LlmTimeout"]
  have s: "llm_posts (fst (submit_message (example_world (\<lambda>n. LlmTimeout)) started_example ''hi'')) =
     [\<lparr>llm_authorization = ''Bearer sk-test'',
       llm_messages =
         [\<lparr>role = ''system'', content = system_prompt\<rparr>,
          \<lparr>role = ''assistant'', content = initial_message\<rparr>,
          \<lparr>role = ''user'', content = ''hi''\<rparr>,
          \<lparr>role = ''user'', content = ''hi''\<rparr>],
       llm_max_tokens = 500\<rparr>]"
    by (simp add: example_world_def started_example_def init_session_state_def
        entry_message_def)
  from gateway_messages_of_step[OF a example_key(2) k, of "\<lambda>n. LlmTimeout"]
  have t: "llm_posts (fst (submit_message (example_world (\<lambda>n. LlmTimeout)) long_example ''hi'')) =
     [\<lparr>llm_authorization = ''Bearer sk-test'',
       llm_messages =
         [\<lparr>role = ''system'', content = system_prompt\<rparr>,
          \<lparr>role = ''assistant'', content = ''c''\<rparr>,
          \<lparr>role = ''user'', content = ''d''\<rparr>,
          \<lparr>role = ''assistant'', content = ''e''\<rparr>,
          \<lparr>role = ''user'', content = ''f''\<rparr>,
          \<lparr>role = ''assistant'', content = ''g''\<rparr>,
          \<lparr>role = ''user'', content = ''h''\<rparr>,
          \<lparr>role = ''assistant'', content = ''i''\<rparr>,
          \<lparr>role = ''user'', content = ''j''\<rparr>,
          \<lparr>role = ''assistant'', content = ''k''\<rparr>,
          \<lparr>role = ''user'', content = ''hi''\<rparr>,
          \<lparr>role = ''user'', content = ''hi''\<rparr>],
       llm_max_tokens = 500\<rparr>]"
    by (simp add: example_world_def long_example_def init_session_state_def entry_message_def)
  from s t a l accepts_hi k
    example_key(2)[of "\<lambda>n. LlmTimeout" started_example]
    example_key(2)[of "\<lambda>n. LlmTimeout" long_example]
  show ?thesis by simp
qed

lemma example_start:
  "start_consultation (example_world f) init_session_state =
     (example_world f\<lparr>ticks := 1\<rparr>, started_example)"
  by (simp add: start_consultation_def example_world_def init_session_state_def py_or_def
      truthy_str_def now_iso_def append_entry_def started_example_def)

lemma example_step_hi:
  assumes "f 0 = LlmResponse 200 (Some ''ok?'')"
  shows "submit_message (example_world f\<lparr>ticks := 1\<rparr>) started_example ''hi'' =
    (example_world f\<lparr>llm_posts := [step_request (example_world f\<lparr>ticks := 1\<rparr>) started_example ''hi'' ''sk-test''], ticks := 3\<rparr>,
     started_example\<lparr>conversation_history := conversation_history started_example @
         [\<lparr>etype = ''user'', message = ''hi'', timestamp = Some ''2024-01-01T10:00:00''\<rparr>,
          \<lparr>etype = ''bot'', message = ''ok?'', timestamp = Some ''2024-01-01T10:00:00''\<rparr>]\<rparr>)"
proof -
  have k: "''sk-test'' \<noteq> []" by simp
  have r: "step_reply (example_world f\<lparr>ticks := 1\<rparr>) started_example ''hi'' = Some ''ok?''"
    by (simp add: example_reply assms strip_examples)
  have n: "\<not> str_contains ready_marker ''ok?''" by (simp add: ready_marker_def)
  have e: "''ok?'' \<noteq> []" by simp
  have a: "fst (submit_message (example_world f\<lparr>ticks := 1\<rparr>) started_example ''hi'') =
     example_world f\<lparr>llm_posts := [step_request (example_world f\<lparr>ticks := 1\<rparr>) started_example ''hi'' ''sk-test''], ticks := 3\<rparr>"
    using submit_world[OF accepts_hi example_key(1)[where f=f and n=1 and s=started_example] k]
    by (simp add: example_world_def)
  have b: "snd (submit_message (example_world f\<lparr>ticks := 1\<rparr>) started_example ''hi'') =
     started_example\<lparr>conversation_history := conversation_history started_example @
         [\<lparr>etype = ''user'', message = ''hi'', timestamp = Some ''2024-01-01T10:00:00''\<rparr>,
          \<lparr>etype = ''bot'', message = ''ok?'', timestamp = Some ''2024-01-01T10:00:00''\<rparr>]\<rparr>"
    using submit_reply[OF accepts_hi r e] n
    by (simp add: user_entry_def example_world_def)
  show ?thesis using a b by (simp add: prod_eq_iff)
qed

lemma example_accepted:
  "submissions_accepted (example_world two_answers\<lparr>ticks := 1\<rparr>) started_example [''hi'', ''yes'']"
proof -
  have f0: "two_answers 0 = LlmResponse 200 (Some ''ok?'')" by (simp add: two_answers_def)
  show ?thesis
    unfolding submissions_accepted.simps example_step_hi[of two_answers, OF f0]
    by (simp add: accepts_hi)
      (simp add: form_accepts_def started_example_def init_session_state_def strip_examples)
qed

text \<open>
  Claim C5. Start a fresh session with a credential configured, then let \<open>N\<close> messages
  be submitted through the chat form, each one shown the form and passing the blank check
  when its turn comes (\<open>submissions_accepted\<close>), whatever the Gateway answers. The
  history then has \<open>2N + 1\<close> entries: the opening bot entry, then for each message one
  user entry followed by one bot entry, the user messages in the order submitted, and the
  history after the start is a prefix of the final one.
\<close>

theorem transcript_length_after_submissions:
  assumes "conversation_history s0 = []" "\<not> consultation_active s0" "\<not> assessment_ready s0"
    and "truthy_str (py_or (secrets w ''OPENROUTER_API_KEY'') (openrouter_api_key s0))"
    and "start_consultation w s0 = (w1, s1)"
    and "submissions_accepted w1 s1 msgs"
    and "run_messages w1 s1 msgs = (w2, s2)"
  shows "length (conversation_history s2) = 2 * length msgs + 1 \<and>
         map etype (conversation_history s2) =
           ''bot'' # concat (map (\<lambda>m. [''user'', ''bot'']) msgs) \<and>
         map message (filter (\<lambda>e. etype e = ''user'') (conversation_history s2)) = msgs \<and>
         prefix (conversation_history s1) (conversation_history s2) \<and>
         message (hd (conversation_history s2)) = initial_message"
proof -
  from start_history[OF assms(1-4)] assms(5)
  have h1: "conversation_history s1 =
      [\<lparr>etype = ''bot'', message = initial_message, timestamp = Some (clock w (ticks w))\<rparr>]"
    by simp
  from run_history[OF assms(6)] assms(7)
  have r: "length (conversation_history s2) = length (conversation_history s1) + 2 * length msgs"
    "map etype (conversation_history s2) =
       map etype (conversation_history s1) @ concat (map (\<lambda>m. [''user'', ''bot'']) msgs)"
    "map message (filter (\<lambda>e. etype e = ''user'') (conversation_history s2)) =
       map message (filter (\<lambda>e. etype e = ''user'') (conversation_history s1)) @ msgs"
    "prefix (conversation_history s1) (conversation_history s2)"
    by simp_all
  from r(4) h1 have "hd (conversation_history s2) = hd (conversation_history s1)"
    by (auto simp add: prefix_def)
  with r h1 show ?thesis by simp
qed

theorem transcript_length_after_submissions_witness:
  "conversation_history init_session_state = [] \<and>
   \<not> consultation_active init_session_state \<and> \<not> assessment_ready init_session_state \<and>
   truthy_str (py_or (secrets (example_world two_answers) ''OPENROUTER_API_KEY'')
     (openrouter_api_key init_session_state)) \<and>
   start_consultation (example_world two_answers) init_session_state =
     (example_world two_answers\<lparr>ticks := 1\<rparr>, started_example) \<and>
   submissions_accepted (example_world two_answers\<lparr>ticks := 1\<rparr>) started_example [''hi'', ''yes''] \<and>
   length (conversation_history
     (snd (run_messages (example_world two_answers\<lparr>ticks := 1\<rparr>) started_example [''hi'', ''yes'']))) = 5 \<and>
   map etype (conversation_history
     (snd (run_messages (example_world two_answers\<lparr>ticks := 1\<rparr>) started_example [''hi'', ''yes'']))) =
     [''bot'', ''user'', ''bot'', ''user'', ''bot'']"
proof -
  have h: "conversation_history init_session_state = []"
    "\<not> consultation_active init_session_state" "\<not> assessment_ready init_session_state"
    by (simp_all add: init_session_state_def)
  have c: "truthy_str (py_or (secrets (example_world two_answers) ''OPENROUTER_API_KEY'')
     (openrouter_api_key init_session_state))"
    by (simp add: example_key truthy_str_def)
  have r: "run_messages (example_world two_answers\<lparr>ticks := 1\<rparr>) started_example [''hi'', ''yes''] =
    (fst (run_messages (example_world two_answers\<lparr>ticks := 1\<rparr>) started_example [''hi'', ''yes'']),
     snd (run_messages (example_world two_answers\<lparr>ticks := 1\<rparr>) started_example [''hi'', ''yes'']))"
    by simp
  from transcript_length_after_submissions[OF h c example_start example_accepted r]
    h c example_start[of two_answers] example_accepted
  show ?thesis by simp
qed

lemma nested_replace:
  "str_replace ready_marker [] ''ASSESSMENT_ASSESSMENT_READYREADY'' = ''ASSESSMENT_READY''"
  by (simp add: ready_marker_def)

lemma nested_strip:
  "str_strip ''ASSESSMENT_ASSESSMENT_READYREADY'' = ''ASSESSMENT_ASSESSMENT_READYREADY''"
  "str_strip ''ASSESSMENT_READY'' = ''ASSESSMENT_READY''"
  by (simp_all add: str_strip_def is_space_def)

lemma nested_contains:
  "str_contains ready_marker ''ASSESSMENT_ASSESSMENT_READYREADY''"
  "str_contains ready_marker ''ASSESSMENT_READY''"
  by (simp_all add: ready_marker_def)

lemma marker_reply_sets_ready:
  assumes "form_accepts s u" and "step_reply w s u = Some r" and "str_contains ready_marker r"
  shows "assessment_ready (snd (submit_message w s u)) \<and>
         message (last (conversation_history (snd (submit_message w s u)))) =
           str_strip (str_replace ready_marker [] r)"
proof -
  from assms(3) have "r \<noteq> []" by (auto simp add: ready_marker_def)
  from submit_reply[OF assms(1,2) this] assms(3) show ?thesis by simp
qed

lemma ready_stays_under_submit:
  "assessment_ready s \<Longrightarrow> submit_message w s u = (w, s)"
  by (simp add: submit_message_def)

lemma ready_stays_under_start:
  "assessment_ready s \<Longrightarrow> assessment_ready (snd (start_consultation w s))"
  by (simp add: start_consultation_def now_iso_def append_entry_def)

lemma nested_step:
  "snd (submit_message (example_world nested_marker_reply) started_example ''hi'') =
    started_example\<lparr>conversation_history := conversation_history started_example @
              [user_entry (example_world nested_marker_reply) ''hi'',
               \<lparr>etype = ''bot'', message = ''ASSESSMENT_READY'',
                timestamp = Some (clock (example_world nested_marker_reply) (Suc (ticks (example_world nested_marker_reply))))\<rparr>],
             assessment_ready := True\<rparr>"
proof -
  have r: "step_reply (example_world nested_marker_reply) started_example ''hi'' =
      Some ''ASSESSMENT_ASSESSMENT_READYREADY''"
    by (simp add: example_reply nested_marker_reply_def nested_strip)
  have e: "''ASSESSMENT_ASSESSMENT_READYREADY'' \<noteq> []" by simp
  show ?thesis
    by (simp only: submit_reply[OF accepts_hi r e] nested_contains if_True nested_replace nested_strip)
qed

text \<open>
  Claim C1. A reply that contains the marker sets \<open>assessment_ready\<close>, and the stored
  text is the reply after one \<open>replace\<close> pass and \<open>strip\<close>
  (\<open>marker_reply_sets_ready\<close>); once the flag is set, neither the chat form nor the
  start button changes it (\<open>ready_stays_under_submit\<close>, \<open>ready_stays_under_start\<close>).
  The stored bot entry can still contain the marker: \<open>replace\<close> scans the reply once,
  so the reply \<open>ASSESSMENT_ASSESSMENT_READYREADY\<close> is stored as \<open>ASSESSMENT_READY\<close>.
  The theorem evaluates the step at that reply.
\<close>

theorem marker_survives_single_replace:
  "conversation_history
     (snd (submit_message (example_world nested_marker_reply) started_example ''hi'')) =
     [\<lparr>etype = ''bot'', message = initial_message, timestamp = Some ''2024-01-01T10:00:00''\<rparr>,
      \<lparr>etype = ''user'', message = ''hi'', timestamp = Some ''2024-01-01T10:00:00''\<rparr>,
      \<lparr>etype = ''bot'', message = ''ASSESSMENT_READY'', timestamp = Some ''2024-01-01T10:00:00''\<rparr>] \<and>
   assessment_ready
     (snd (submit_message (example_world nested_marker_reply) started_example ''hi'')) \<and>
   str_contains ready_marker ''ASSESSMENT_READY''"
  unfolding nested_step
  by (simp add: started_example_def init_session_state_def user_entry_def example_world_def
      ready_marker_def)

section \<open>Properties of the diagnosis lookup\<close>

lemma diagnosis_post:
  assumes "truthy (dict_get d ''symptoms'' (JList []))"
  shows "get_ai_diagnosis w s (JDict d) =
     (let req = \<lparr>diag_key = rapidapi_header w s,
                 diag_payload = diagnosis_payload d (dict_get d ''symptoms'' (JList []))\<rparr>
      in ((case diag_server w (length (diag_posts w)) req of
             DiagResponse status (Some v) \<Rightarrow> if status = 200 then v else JNull
           | _ \<Rightarrow> JNull),
          w\<lparr>diag_posts := diag_posts w @ [req]\<rparr>))"
  using assms
  by (simp add: get_ai_diagnosis_def Let_def split: diag_outcome.splits option.splits)

text \<open>
  Claim C10. For a record whose \<open>symptoms\<close> are truthy, the lookup posts one request
  whose payload carries the symptoms, \<open>age\<close> and \<open>gender\<close> as the record has them and
  the defaults \<open>25\<close> and \<open>"unknown"\<close> where the record has no such key, and the chronic
  conditions as \<open>medical_history\<close>. A key that is present with the value \<open>null\<close> is sent
  as \<open>null\<close>.
\<close>

theorem diagnosis_payload_defaults:
  assumes "truthy (dict_get d ''symptoms'' (JList []))"
  shows "diag_posts (snd (get_ai_diagnosis w s (JDict d))) = diag_posts w @
     [\<lparr>diag_key = rapidapi_header w s,
       diag_payload =
         [(''symptoms'', dict_get d ''symptoms'' (JList [])),
          (''age'', case map_of d ''age'' of None \<Rightarrow> JInt 25 | Some v \<Rightarrow> v),
          (''gender'', case map_of d ''gender'' of None \<Rightarrow> JStr ''unknown'' | Some v \<Rightarrow> v),
          (''medical_history'', dict_get d ''chronic_conditions'' (JList []))]\<rparr>]"
  by (simp add: diagnosis_post[OF assms] Let_def diagnosis_payload_def dict_get_def)

theorem diagnosis_payload_defaults_witness:
  "truthy (dict_get [(''symptoms'', JList [JStr ''fever'']), (''gender'', JNull)] ''symptoms'' (JList [])) \<and>
   diag_posts (snd (get_ai_diagnosis lenient_world init_session_state
      (JDict [(''symptoms'', JList [JStr ''fever'']), (''gender'', JNull)]))) =
     [\<lparr>diag_key = [],
       diag_payload =
         [(''symptoms'', JList [JStr ''fever'']),
          (''age'', JInt 25),
          (''gender'', JNull),
          (''medical_history'', JList [])]\<rparr>]"
proof -
  have t: "truthy (dict_get [(''symptoms'', JList [JStr ''fever'']), (''gender'', JNull)] ''symptoms'' (JList []))"
    by (simp add: dict_get_def)
  from diagnosis_payload_defaults[OF t, of lenient_world init_session_state] t
  show ?thesis
    by (simp add: dict_get_def lenient_world_def rapidapi_header_def init_session_state_def)
qed

text \<open>
  Claim C4, as stated, fails: \<open>get_ai_diagnosis\<close> never looks at whether a credential is
  configured. With none, it posts the request with an empty key, and an endpoint that
  answers 200 gets its body returned.
\<close>

theorem lookup_answers_without_credential:
  "secrets lenient_world ''RAPIDAPI_KEY'' = None \<and>
   rapidapi_key init_session_state = None \<and>
   truthy (dict_get [(''symptoms'', JList [JStr ''fever''])] ''symptoms'' (JList [])) \<and>
   fst (get_ai_diagnosis lenient_world init_session_state
          (JDict [(''symptoms'', JList [JStr ''fever''])])) = JDict [(''diagnosis'', JStr ''flu'')] \<and>
   JDict [(''diagnosis'', JStr ''flu'')] \<noteq> JNull"
  by (simp add: get_ai_diagnosis_def dict_get_def lenient_world_def init_session_state_def Let_def)

text \<open>
  Claim C4, amended. For a record whose \<open>symptoms\<close> are truthy and with no diagnosis
  credential configured (none in the secret store, none in the session), the lookup still
  posts one request, with an empty key, and returns absent unless the endpoint answers
  with status 200 and a body that parses, which it then returns.
\<close>

theorem lookup_without_credential:
  assumes "truthy (dict_get d ''symptoms'' (JList []))"
    and "\<not> truthy_str (secrets w ''RAPIDAPI_KEY'')" and "\<not> truthy_str (rapidapi_key s)"
  shows "diag_posts (snd (get_ai_diagnosis w s (JDict d))) = diag_posts w @
           [\<lparr>diag_key = [],
             diag_payload = diagnosis_payload d (dict_get d ''symptoms'' (JList []))\<rparr>] \<and>
         fst (get_ai_diagnosis w s (JDict d)) =
           (case diag_server w (length (diag_posts w))
                   \<lparr>diag_key = [],
                    diag_payload = diagnosis_payload d (dict_get d ''symptoms'' (JList []))\<rparr> of
              DiagResponse status (Some v) \<Rightarrow> if status = 200 then v else JNull
            | _ \<Rightarrow> JNull)"
proof -
  have h: "rapidapi_header w s = []"
    using assms(2,3)
    by (auto simp add: rapidapi_header_def truthy_str_def Let_def split: option.splits)
  show ?thesis
    by (simp add: diagnosis_post[OF assms(1)] Let_def h)
qed

theorem lookup_without_credential_witness:
  "truthy (dict_get [(''symptoms'', JList [JStr ''fever''])] ''symptoms'' (JList [])) \<and>
   \<not> truthy_str (secrets (example_world two_answers) ''RAPIDAPI_KEY'') \<and>
   \<not> truthy_str (rapidapi_key init_session_state) \<and>
   diag_posts (snd (get_ai_diagnosis (example_world two_answers) init_session_state
      (JDict [(''symptoms'', JList [JStr ''fever''])]))) =
     [\<lparr>diag_key = [],
       diag_payload = [(''symptoms'', JList [JStr ''fever'']), (''age'', JInt 25),
          (''gender'', JStr ''unknown''), (''medical_history'', JList [])]\<rparr>] \<and>
   fst (get_ai_diagnosis (example_world two_answers) init_session_state
      (JDict [(''symptoms'', JList [JStr ''fever''])])) = JNull"
proof -
  have t: "truthy (dict_get [(''symptoms'', JList [JStr ''fever''])] ''symptoms'' (JList []))"
    by (simp add: dict_get_def)
  have a: "\<not> truthy_str (secrets (example_world two_answers) ''RAPIDAPI_KEY'')"
    by (simp add: example_world_def truthy_str_def)
  have b: "\<not> truthy_str (rapidapi_key init_session_state)"
    by (simp add: init_session_state_def truthy_str_def)
  from lookup_without_credential[OF t a b] t a b
  show ?thesis
    by (simp add: dict_get_def diagnosis_payload_def example_world_def)
qed

section \<open>Properties of the assessment composer\<close>




lemma call_api_no_key:
  "\<not> truthy_str (py_or (secrets w ''OPENROUTER_API_KEY'') (openrouter_api_key s)) \<Longrightarrow>
     call_openrouter_api w s ms n = (None, w)"
  by (auto simp add: call_openrouter_api_def truthy_str_def split: option.splits)








section \<open>Properties of the extraction\<close>

lemma extract_result:
  "fst (extract_medical_data L w s t) =
     (case extraction_reply w s t of
        None \<Rightarrow> JDict []
      | Some r \<Rightarrow>
          if r = [] then JDict []
          else (case re_search_object r of
                  None \<Rightarrow> JDict []
                | Some m \<Rightarrow> (case json_loads L m of None \<Rightarrow> JDict [] | Some v \<Rightarrow> v)))"
  by (simp add: extract_medical_data_def extraction_reply_def split_beta truthy_str_def
      split: option.splits)

lemma dropWhile_split: "\<exists>p. xs = p @ dropWhile P xs \<and> (\<forall>x\<in>set p. P x)"
  by (rule exI[of _ "takeWhile P xs"]) (auto dest: set_takeWhileD)

lemma re_search_object_shape:
  assumes "re_search_object r = Some m"
  shows "\<exists>p b q. r = p @ m @ q \<and> m = [CHR ''{''] @ b @ [CHR ''}''] \<and>
           CHR ''{'' \<notin> set p \<and> CHR ''}'' \<notin> set q"
proof -
  define f where "f = dropWhile (\<lambda>c. c \<noteq> CHR ''{'') r"
  define g where "g = dropWhile (\<lambda>c. c \<noteq> CHR ''}'') (rev f)"
  from assms have m: "m = rev g" and ne: "g \<noteq> []"
    by (auto simp add: re_search_object_def Let_def f_def g_def split: if_splits)
  obtain p where p: "r = p @ f" "\<forall>x\<in>set p. x \<noteq> CHR ''{''"
    using dropWhile_split[of r "\<lambda>c. c \<noteq> CHR ''{''"] f_def by auto
  obtain ys where ys: "rev f = ys @ g" "\<forall>x\<in>set ys. x \<noteq> CHR ''}''"
    using dropWhile_split[of "rev f" "\<lambda>c. c \<noteq> CHR ''}''"] g_def by auto
  from arg_cong[OF ys(1), of rev] have f: "f = m @ rev ys" by (simp add: m)
  have hg: "hd g = CHR ''}''"
    using ne hd_dropWhile[of "\<lambda>c. c \<noteq> CHR ''}''" "rev f"] by (simp add: g_def)
  have fne: "f \<noteq> []" using f ne m by simp
  have hf: "hd f = CHR ''{''"
    using fne hd_dropWhile[of "\<lambda>c. c \<noteq> CHR ''{''" r] by (simp add: f_def)
  have mne: "m \<noteq> []" using m ne by simp
  have hm: "hd m = CHR ''{''" using hf f mne by simp
  have lm: "last m = CHR ''}''" using hg m ne by (simp add: last_rev)
  obtain t where t: "m = CHR ''{'' # t" using mne hm by (cases m) auto
  have tne: "t \<noteq> []" using lm t by auto
  then have "t = butlast t @ [last t]" by simp
  moreover have "last t = CHR ''}''" using lm t tne by simp
  ultimately have "t = butlast t @ [CHR ''}'']" by simp
  then have b: "m = [CHR ''{''] @ butlast t @ [CHR ''}'']" using t by simp
  have "r = p @ m @ rev ys" using p f by simp
  moreover have "CHR ''{'' \<notin> set p" using p(2) by auto
  moreover have "CHR ''}'' \<notin> set (rev ys)" using ys(2) by auto
  ultimately show ?thesis using b by blast
qed

lemma re_search_object_found:
  assumes "r = a @ [CHR ''{''] @ b @ [CHR ''}''] @ c"
  shows "re_search_object r \<noteq> None"
proof -
  define f where "f = dropWhile (\<lambda>c. c \<noteq> CHR ''{'') r"
  have "\<exists>q. f = q @ [CHR ''{''] @ b @ [CHR ''}''] @ c"
  proof (cases "\<forall>x\<in>set a. x \<noteq> CHR ''{''")
    case True
    then have "f = [CHR ''{''] @ b @ [CHR ''}''] @ c"
      unfolding f_def assms by (simp add: dropWhile_append2)
    then show ?thesis by (metis append_Nil)
  next
    case False
    then obtain x where "x \<in> set a" "\<not> x \<noteq> CHR ''{''" by blast
    then have "f = dropWhile (\<lambda>c. c \<noteq> CHR ''{'') a @ [CHR ''{''] @ b @ [CHR ''}''] @ c"
      unfolding f_def assms by (rule dropWhile_append1)
    then show ?thesis by blast
  qed
  then have "CHR ''}'' \<in> set (rev f)" by auto
  then have "dropWhile (\<lambda>c. c \<noteq> CHR ''}'') (rev f) \<noteq> []"
    by (simp add: dropWhile_eq_Nil_conv)
  then show ?thesis by (simp add: re_search_object_def Let_def f_def)
qed

lemma re_search_object_none:
  "re_search_object r = None \<longleftrightarrow>
     \<not> (\<exists>a b c. r = a @ [CHR ''{''] @ b @ [CHR ''}''] @ c)"
proof
  assume "re_search_object r = None"
  then show "\<not> (\<exists>a b c. r = a @ [CHR ''{''] @ b @ [CHR ''}''] @ c)"
    using re_search_object_found by blast
next
  assume h: "\<not> (\<exists>a b c. r = a @ [CHR ''{''] @ b @ [CHR ''}''] @ c)"
  show "re_search_object r = None"
  proof (rule ccontr)
    assume "re_search_object r \<noteq> None"
    then obtain m where m: "re_search_object r = Some m" by auto
    from re_search_object_shape[OF m] obtain p b q where
      "r = p @ m @ q" "m = [CHR ''{''] @ b @ [CHR ''}'']" by blast
    then have "r = p @ [CHR ''{''] @ b @ [CHR ''}''] @ q" by simp
    with h show False by blast
  qed
qed

lemma example_extraction_reply:
  "extraction_reply (example_world f) s t =
     (case f 0 of LlmResponse status (Some c) \<Rightarrow> if status = 200 then Some (str_strip c) else None
      | _ \<Rightarrow> None)"
  unfolding extraction_reply_def
  by (simp add: call_api_ok[OF example_key(2)] Let_def) (simp add: example_world_def)

lemma reply_examples:
  \<open>str_strip ''{"age": null}'' = ''{"age": null}''\<close>
  \<open>str_strip ''no data'' = ''no data''\<close>
  \<open>str_strip ''{oops}'' = ''{oops}''\<close>
  by (simp_all add: str_strip_def is_space_def)

lemma search_examples:
  \<open>re_search_object ''{"age": null}'' = Some ''{"age": null}''\<close>
  \<open>re_search_object ''no data'' = None\<close>
  \<open>re_search_object ''{oops}'' = Some ''{oops}''\<close>
  by (simp_all add: re_search_object_def)

lemma example_lib_objects: "objects_only example_lib"
  by (auto simp add: objects_only_def example_lib_def split: if_splits)

text \<open>
  Claim C2, as stated, fails in its last sentence: the result of the extraction is
  decided by the Gateway's reply, not by the transcript. For the empty transcript the
  prompt is sent all the same, and a reply that holds a JSON object gives that object.
\<close>

theorem empty_transcript_nonempty_record:
  \<open>fst (extract_medical_data example_lib (example_world object_reply) init_session_state '''') =
     JDict [(''age'', JNull)] \<and>
   JDict [(''age'', JNull)] \<noteq> JDict []\<close>
  by (simp add: extract_result example_extraction_reply object_reply_def reply_examples
      search_examples example_lib_def)

lemma re_search_object_exact:
  assumes "r = a @ [CHR ''{''] @ b @ [CHR ''}''] @ c"
    and "CHR ''{'' \<notin> set a" and "CHR ''}'' \<notin> set c"
  shows "re_search_object r = Some ([CHR ''{''] @ b @ [CHR ''}''])"
proof -
  have f: "dropWhile (\<lambda>x. x \<noteq> CHR ''{'') r = [CHR ''{''] @ b @ [CHR ''}''] @ c"
    unfolding assms(1) using assms(2) by (subst dropWhile_append2) auto
  have "rev ([CHR ''{''] @ b @ [CHR ''}''] @ c) = rev c @ ([CHR ''}''] @ rev b @ [CHR ''{''])"
    by simp
  moreover have "dropWhile (\<lambda>x. x \<noteq> CHR ''}'') (rev c @ ([CHR ''}''] @ rev b @ [CHR ''{''])) =
      dropWhile (\<lambda>x. x \<noteq> CHR ''}'') ([CHR ''}''] @ rev b @ [CHR ''{''])"
    using assms(3) by (subst dropWhile_append2) auto
  ultimately have g: "dropWhile (\<lambda>x. x \<noteq> CHR ''}'') (rev ([CHR ''{''] @ b @ [CHR ''}''] @ c)) =
      [CHR ''}''] @ rev b @ [CHR ''{'']"
    by simp
  show ?thesis
    unfolding re_search_object_def Let_def f g by simp
qed

text \<open>
  Claim C2, amended. For every transcript, the empty one included, the extraction is a
  total function of the Gateway's reply. It returns the empty record when the Gateway
  gives no usable reply, when the reply has no opening brace followed later by a closing
  brace, and when \<open>json.loads\<close> raises on the matched text. Otherwise it returns what
  \<open>json.loads\<close> returns on the text from the first opening brace to the last closing
  brace of the reply, which is a record since that text starts with an opening brace
  (\<open>objects_only\<close>).
\<close>

theorem extraction_degrades_to_empty:
  "(\<not> truthy_str (extraction_reply w s t) \<longrightarrow> fst (extract_medical_data L w s t) = JDict []) \<and>
   (\<forall>r. extraction_reply w s t = Some r \<and>
        \<not> (\<exists>a b c. r = a @ [CHR ''{''] @ b @ [CHR ''}''] @ c) \<longrightarrow>
        fst (extract_medical_data L w s t) = JDict []) \<and>
   (\<forall>r m. extraction_reply w s t = Some r \<and> re_search_object r = Some m \<and>
        json_loads L m = None \<longrightarrow>
        fst (extract_medical_data L w s t) = JDict []) \<and>
   (\<forall>a b c. extraction_reply w s t = Some (a @ [CHR ''{''] @ b @ [CHR ''}''] @ c) \<and>
        CHR ''{'' \<notin> set a \<and> CHR ''}'' \<notin> set c \<longrightarrow>
        fst (extract_medical_data L w s t) =
          (case json_loads L ([CHR ''{''] @ b @ [CHR ''}'']) of
             None \<Rightarrow> JDict []
           | Some v \<Rightarrow> v)) \<and>
   (objects_only L \<longrightarrow> (\<exists>d. fst (extract_medical_data L w s t) = JDict d))"
proof (intro conjI allI impI)
  assume "\<not> truthy_str (extraction_reply w s t)"
  then show "fst (extract_medical_data L w s t) = JDict []"
    by (simp add: extract_result truthy_str_def split: option.splits)
next
  fix r
  assume "extraction_reply w s t = Some r \<and>
        \<not> (\<exists>a b c. r = a @ [CHR ''{''] @ b @ [CHR ''}''] @ c)"
  then have "extraction_reply w s t = Some r" "re_search_object r = None"
    by (simp_all add: re_search_object_none)
  then show "fst (extract_medical_data L w s t) = JDict []"
    by (simp add: extract_result)
next
  fix r m
  assume "extraction_reply w s t = Some r \<and> re_search_object r = Some m \<and>
        json_loads L m = None"
  then show "fst (extract_medical_data L w s t) = JDict []"
    by (simp add: extract_result)
next
  fix a b c
  assume h: "extraction_reply w s t = Some (a @ [CHR ''{''] @ b @ [CHR ''}''] @ c) \<and>
        CHR ''{'' \<notin> set a \<and> CHR ''}'' \<notin> set c"
  then have m: "re_search_object (a @ [CHR ''{''] @ b @ [CHR ''}''] @ c) =
      Some ([CHR ''{''] @ b @ [CHR ''}''])"
    using re_search_object_exact[OF refl, of a c b] by simp
  have e: "extraction_reply w s t = Some (a @ [CHR ''{''] @ b @ [CHR ''}''] @ c)"
    using h by simp
  show "fst (extract_medical_data L w s t) =
          (case json_loads L ([CHR ''{''] @ b @ [CHR ''}'']) of
             None \<Rightarrow> JDict []
           | Some v \<Rightarrow> v)"
    unfolding extract_result e using m by simp
next
  assume o: "objects_only L"
  show "\<exists>d. fst (extract_medical_data L w s t) = JDict d"
  proof (cases "extraction_reply w s t")
    case None
    then show ?thesis by (simp add: extract_result)
  next
    case (Some r)
    show ?thesis
    proof (cases "re_search_object r")
      case None
      with Some show ?thesis by (simp add: extract_result)
    next
      case (Some m)
      note sm = this
      from re_search_object_shape[OF sm] have h: "m \<noteq> []" "hd m = CHR ''{''" by auto
      show ?thesis
      proof (cases "json_loads L m")
        case None
        with sm \<open>extraction_reply w s t = Some r\<close> show ?thesis by (simp add: extract_result)
      next
        case (Some v)
        with o h obtain d where "v = JDict d" unfolding objects_only_def by blast
        with Some sm \<open>extraction_reply w s t = Some r\<close> show ?thesis
          by (simp add: extract_result)
      qed
    qed
  qed
qed

theorem extraction_degrades_to_empty_witness:
  \<open>\<not> truthy_str (extraction_reply lenient_world init_session_state '''') \<and>
   fst (extract_medical_data example_lib lenient_world init_session_state '''') = JDict [] \<and>
   extraction_reply (example_world prose_reply) init_session_state ''User: hi'' = Some ''no data'' \<and>
   \<not> (\<exists>a b c. ''no data'' = a @ [CHR ''{''] @ b @ [CHR ''}''] @ c) \<and>
   fst (extract_medical_data example_lib (example_world prose_reply) init_session_state ''User: hi'') =
     JDict [] \<and>
   extraction_reply (example_world broken_reply) init_session_state ''User: hi'' = Some ''{oops}'' \<and>
   re_search_object ''{oops}'' = Some ''{oops}'' \<and> json_loads example_lib ''{oops}'' = None \<and>
   fst (extract_medical_data example_lib (example_world broken_reply) init_session_state ''User: hi'') =
     JDict [] \<and>
   extraction_reply (example_world fenced_reply) init_session_state ''User: I am 40'' =
     Some (''Here: '' @ [CHR ''{''] @ ''"age": 40'' @ [CHR ''}''] @ '' ok'') \<and>
   CHR ''{'' \<notin> set ''Here: '' \<and> CHR ''}'' \<notin> set '' ok'' \<and>
   json_loads fenced_lib ''{"age": 40}'' = Some (JDict [(''age'', JInt 40)]) \<and>
   fst (extract_medical_data fenced_lib (example_world fenced_reply) init_session_state
      ''User: I am 40'') = JDict [(''age'', JInt 40)] \<and>
   objects_only example_lib \<and>
   (\<exists>d. fst (extract_medical_data example_lib (example_world object_reply) init_session_state '''') =
      JDict d)\<close>
proof -
  have k: "\<not> truthy_str (py_or (secrets lenient_world ''OPENROUTER_API_KEY'')
             (openrouter_api_key init_session_state))"
    by (simp add: lenient_world_def init_session_state_def py_or_def truthy_str_def)
  have a: "\<not> truthy_str (extraction_reply lenient_world init_session_state '''')"
    by (simp add: extraction_reply_def call_api_no_key[OF k] truthy_str_def)
  have b1: "extraction_reply (example_world prose_reply) init_session_state ''User: hi'' =
      Some ''no data''"
    by (simp add: example_extraction_reply prose_reply_def reply_examples)
  have b2: "\<not> (\<exists>a b c. ''no data'' = a @ [CHR ''{''] @ b @ [CHR ''}''] @ c)"
    using re_search_object_none[of "''no data''"] search_examples(2) by simp
  have c1: "extraction_reply (example_world broken_reply) init_session_state ''User: hi'' =
      Some ''{oops}''"
    by (simp add: example_extraction_reply broken_reply_def reply_examples)
  have c3: "json_loads example_lib ''{oops}'' = None" by (simp add: example_lib_def)
  have d1: \<open>extraction_reply (example_world fenced_reply) init_session_state ''User: I am 40'' =
      Some (''Here: '' @ [CHR ''{''] @ ''"age": 40'' @ [CHR ''}''] @ '' ok'')\<close>
    by (simp add: example_extraction_reply fenced_reply_def str_strip_def is_space_def)
  have d2: "CHR ''{'' \<notin> set ''Here: ''" "CHR ''}'' \<notin> set '' ok''" by simp_all
  have d3: \<open>json_loads fenced_lib ([CHR ''{''] @ ''"age": 40'' @ [CHR ''}'']) =
      Some (JDict [(''age'', JInt 40)])\<close>
    by (simp add: fenced_lib_def)
  note t1 = extraction_degrades_to_empty[of lenient_world init_session_state "''''" example_lib]
  note t2 = extraction_degrades_to_empty[of "example_world prose_reply" init_session_state
      "''User: hi''" example_lib]
  note t3 = extraction_degrades_to_empty[of "example_world broken_reply" init_session_state
      "''User: hi''" example_lib]
  note t4 = extraction_degrades_to_empty[of "example_world object_reply" init_session_state
      "''''" example_lib]
  note t5 = extraction_degrades_to_empty[of "example_world fenced_reply" init_session_state
      "''User: I am 40''" fenced_lib]
  have r1: "fst (extract_medical_data example_lib lenient_world init_session_state '''') = JDict []"
    using t1 a by blast
  have r2: "fst (extract_medical_data example_lib (example_world prose_reply) init_session_state
      ''User: hi'') = JDict []"
    using t2 b1 b2 by blast
  have r3: "fst (extract_medical_data example_lib (example_world broken_reply) init_session_state
      ''User: hi'') = JDict []"
    using t3 c1 search_examples(3) c3 by blast
  have r4: "\<exists>d. fst (extract_medical_data example_lib (example_world object_reply)
      init_session_state '''') = JDict d"
    using t4 example_lib_objects by blast
  from t5 have \<open>extraction_reply (example_world fenced_reply) init_session_state ''User: I am 40'' =
        Some (''Here: '' @ [CHR ''{''] @ ''"age": 40'' @ [CHR ''}''] @ '' ok'') \<and>
        CHR ''{'' \<notin> set ''Here: '' \<and> CHR ''}'' \<notin> set '' ok'' \<longrightarrow>
        fst (extract_medical_data fenced_lib (example_world fenced_reply) init_session_state
          ''User: I am 40'') =
          (case json_loads fenced_lib ([CHR ''{''] @ ''"age": 40'' @ [CHR ''}'']) of
             None \<Rightarrow> JDict []
           | Some v \<Rightarrow> v)\<close>
    by blast
  with d1 d2 have r5: "fst (extract_medical_data fenced_lib (example_world fenced_reply)
      init_session_state ''User: I am 40'') = JDict [(''age'', JInt 40)]"
    unfolding d3 by simp
  have d3': \<open>json_loads fenced_lib ''{"age": 40}'' = Some (JDict [(''age'', JInt 40)])\<close>
    using d3 by simp
  show ?thesis
    using a r1 b1 b2 r2 c1 search_examples(3) c3 r3 d1 d2 d3' r5 example_lib_objects r4 by blast
qed

section \<open>Properties of the export\<close>



















section \<open>Properties of the session duration\<close>

lemma pow2_powi: "pow2 e = 2 powi e"
  by (simp add: pow2_def power_int_def power_inverse inverse_eq_divide power_one_over)

lemma pow2_pos: "0 < pow2 e"
  by (simp add: pow2_powi)

lemma pow2_add: "pow2 (a + b) = pow2 a * pow2 b"
  by (simp add: pow2_powi power_int_add)

lemma pow2_nat: "pow2 (int n) = 2 ^ n"
  by (simp add: pow2_def)


lemma binade_lower:
  assumes "x \<noteq> 0"
  shows "pow2 (binade x) \<le> \<bar>x\<bar>"
proof -
  obtain p q where pq: "quotient_of \<bar>x\<bar> = (p, q)" by (cases "quotient_of \<bar>x\<bar>")
  have q0: "0 < q" using quotient_of_denom_pos[OF pq] .
  have x: "\<bar>x\<bar> = of_int p / of_int q" using quotient_of_div[OF pq] .
  have "0 < \<bar>x\<bar>" using assms by simp
  then have p0: "0 < p" using x q0 by (simp add: zero_less_divide_iff)
  define bp where "bp = bitlen p"
  define bq where "bq = bitlen q"
  have bp1: "1 \<le> bp" and bq1: "1 \<le> bq"
    using p0 q0 bitlen_eq_zero_iff[of p] bitlen_eq_zero_iff[of q] bitlen_nonneg[of p]
      bitlen_nonneg[of q] unfolding bp_def bq_def by linarith+
  have lp: "(2::int) ^ nat (bp - 1) \<le> p" using bitlen_bounds[OF p0] by (simp add: bp_def)
  have uq: "q < (2::int) ^ nat bq" using bitlen_bounds[OF q0] by (simp add: bq_def)
  have lp': "pow2 (bp - 1) \<le> of_int p"
  proof -
    have "pow2 (bp - 1) = of_int (2 ^ nat (bp - 1))" using bp1 by (simp add: pow2_def)
    also have "\<dots> \<le> of_int p" using lp by (simp only: of_int_le_iff)
    finally show ?thesis .
  qed
  have uq': "of_int q \<le> pow2 bq"
  proof -
    have "(of_int q :: rat) \<le> of_int (2 ^ nat bq)" using uq by (simp only: of_int_le_iff)
    also have "\<dots> = pow2 bq" using bq1 by (simp add: pow2_def)
    finally show ?thesis .
  qed
  have low: "pow2 (bp - bq - 1) \<le> \<bar>x\<bar>"
  proof -
    have "pow2 (bp - bq - 1) * pow2 bq = pow2 (bp - 1)"
      using pow2_add[of "bp - bq - 1" bq] by simp
    then have "pow2 (bp - bq - 1) * of_int q \<le> pow2 (bp - 1)"
      using uq' pow2_pos[of "bp - bq - 1"]
      by (metis mult_left_mono less_imp_le)
    then have "pow2 (bp - bq - 1) * of_int q \<le> of_int p" using lp' by linarith
    then show ?thesis using q0 unfolding x by (simp add: pos_le_divide_eq)
  qed
  show ?thesis
    unfolding binade_def pq using low
    by (simp add: Let_def bp_def bq_def)
qed

lemma binade_upper:
  assumes "x \<noteq> 0"
  shows "\<bar>x\<bar> < pow2 (binade x + 1)"
proof -
  obtain p q where pq: "quotient_of \<bar>x\<bar> = (p, q)" by (cases "quotient_of \<bar>x\<bar>")
  have q0: "0 < q" using quotient_of_denom_pos[OF pq] .
  have x: "\<bar>x\<bar> = of_int p / of_int q" using quotient_of_div[OF pq] .
  have "0 < \<bar>x\<bar>" using assms by simp
  then have p0: "0 < p" using x q0 by (simp add: zero_less_divide_iff)
  define bp where "bp = bitlen p"
  define bq where "bq = bitlen q"
  have bp1: "1 \<le> bp" and bq1: "1 \<le> bq"
    using p0 q0 bitlen_eq_zero_iff[of p] bitlen_eq_zero_iff[of q] bitlen_nonneg[of p]
      bitlen_nonneg[of q] unfolding bp_def bq_def by linarith+
  have up: "p < (2::int) ^ nat bp" using bitlen_bounds[OF p0] by (simp add: bp_def)
  have lq: "(2::int) ^ nat (bq - 1) \<le> q" using bitlen_bounds[OF q0] by (simp add: bq_def)
  have up': "of_int p < pow2 bp"
  proof -
    have "(of_int p :: rat) < of_int (2 ^ nat bp)" using up by (simp only: of_int_less_iff)
    also have "\<dots> = pow2 bp" using bp1 by (simp add: pow2_def)
    finally show ?thesis .
  qed
  have lq': "pow2 (bq - 1) \<le> of_int q"
  proof -
    have "pow2 (bq - 1) = of_int (2 ^ nat (bq - 1))" using bq1 by (simp add: pow2_def)
    also have "\<dots> \<le> of_int q" using lq by (simp only: of_int_le_iff)
    finally show ?thesis .
  qed
  have upper: "\<bar>x\<bar> < pow2 (bp - bq + 1)"
  proof -
    have "pow2 (bp - bq + 1) * pow2 (bq - 1) = pow2 bp"
      using pow2_add[of "bp - bq + 1" "bq - 1"] by simp
    moreover have "pow2 (bp - bq + 1) * pow2 (bq - 1) \<le> pow2 (bp - bq + 1) * of_int q"
      using lq' pow2_pos[of "bp - bq + 1"] by (metis mult_left_mono less_imp_le)
    ultimately have "of_int p < pow2 (bp - bq + 1) * of_int q" using up' by linarith
    then show ?thesis using q0 unfolding x by (simp add: pos_divide_less_eq)
  qed
  show ?thesis
    unfolding binade_def pq using upper
    by (auto simp add: Let_def bp_def bq_def)
qed

lemma fl_significand:
  assumes "x \<noteq> 0"
  shows "2 ^ 52 \<le> \<bar>x * pow2 (52 - binade x)\<bar> \<and> \<bar>x * pow2 (52 - binade x)\<bar> < 2 ^ 53"
proof -
  define e where "e = binade x"
  have a: "pow2 e * pow2 (52 - e) = 2 ^ 52" using pow2_add[of e "52 - e"] by (simp add: pow2_def)
  have b: "pow2 (e + 1) * pow2 (52 - e) = 2 ^ 53"
    using pow2_add[of "e + 1" "52 - e"] by (simp add: pow2_def)
  have p: "0 < pow2 (52 - e)" by (rule pow2_pos)
  have "pow2 e * pow2 (52 - e) \<le> \<bar>x\<bar> * pow2 (52 - e)"
    using binade_lower[OF assms] p unfolding e_def by (metis mult_right_mono less_imp_le)
  then have l: "2 ^ 52 \<le> \<bar>x\<bar> * pow2 (52 - e)" unfolding a .
  have "\<bar>x\<bar> * pow2 (52 - e) < pow2 (e + 1) * pow2 (52 - e)"
    using binade_upper[OF assms] p unfolding e_def by (metis mult_strict_right_mono)
  then have u: "\<bar>x\<bar> * pow2 (52 - e) < 2 ^ 53" unfolding b .
  have "\<bar>x * pow2 (52 - e)\<bar> = \<bar>x\<bar> * pow2 (52 - e)"
    using p by (simp add: abs_mult)
  then show ?thesis using l u unfolding e_def by simp
qed














end
